theory Spec2Isabelle
  imports Main "HOL-Library.Word"
begin

section \<open>JavaScript strings and numbers\<close>

text \<open>
  The plugin is TypeScript. A JavaScript string is a sequence of 16-bit code units, and
  \<open>split\<close>, \<open>trim\<close>, \<open>===\<close> and \<open>parseInt\<close> all work on code units, so a string is
  modelled as a list of 16-bit words. \<open>js\<close> embeds an ASCII literal.

  Device ids are JavaScript numbers. The model keeps the integer ones as \<open>int\<close>: it is
  exact for the safe integers (magnitude at most \<open>2 ^ 53 - 1\<close>), where a number is its
  own mathematical value and prints in plain decimal. Beyond them the runtime rounds
  what \<open>parseInt\<close> reads to a double and prints numbers from \<open>1e21\<close> in exponent form,
  which \<open>parseInt\<close> and \<open>numberToString\<close> below do not follow; \<open>safeInteger\<close> marks the
  exact range, which holds every id the configuration schema admits (1 to 999).
\<close>

type_synonym code_unit = "16 word"
type_synonym ustring = "code_unit list"

definition js :: "string \<Rightarrow> ustring" where
  "js s = map (\<lambda>c. of_nat (of_char c)) s"

definition safeInteger :: "int \<Rightarrow> bool" where
  "safeInteger n = (\<bar>n\<bar> \<le> 2 ^ 53 - 1)"

text \<open>
  ECMAScript \<open>WhiteSpace\<close> and \<open>LineTerminator\<close> code units: what \<open>trim\<close> removes and
  what \<open>parseInt\<close> skips at the start.
\<close>

definition isWhiteSpace :: "code_unit \<Rightarrow> bool" where
  "isWhiteSpace c =
     (c = 0x0009 \<or> c = 0x000A \<or> c = 0x000B \<or> c = 0x000C \<or> c = 0x000D \<or> c = 0x0020
      \<or> c = 0x00A0 \<or> c = 0x1680 \<or> (0x2000 \<le> c \<and> c \<le> 0x200A) \<or> c = 0x2028
      \<or> c = 0x2029 \<or> c = 0x202F \<or> c = 0x205F \<or> c = 0x3000 \<or> c = 0xFEFF)"

definition trimStart :: "ustring \<Rightarrow> ustring" where
  "trimStart s = dropWhile isWhiteSpace s"

definition trim :: "ustring \<Rightarrow> ustring" where
  "trim s = rev (dropWhile isWhiteSpace (rev (dropWhile isWhiteSpace s)))"

text \<open>\<open>s.split(sep)\<close> for a one-unit separator: never empty, \<open>''.split('/')\<close> is \<open>['']\<close>.\<close>

fun split :: "code_unit \<Rightarrow> ustring \<Rightarrow> ustring list" where
  "split sep [] = [[]]"
| "split sep (c # cs) =
     (if c = sep then [] # split sep cs
      else (case split sep cs of [] \<Rightarrow> [[c]] | p # ps \<Rightarrow> (c # p) # ps))"

text \<open>
  \<open>parseInt(s)\<close> with no radix, after ECMAScript 2023, 19.2.5: skip leading white space,
  take an optional sign, switch to radix 16 after a \<open>0x\<close> or \<open>0X\<close> prefix, read the
  longest run of digits of the radix and ignore whatever follows. An empty run is
  \<open>NaN\<close>, here \<open>None\<close>; \<open>-0\<close> is the integer 0.
\<close>

definition digitValue :: "code_unit \<Rightarrow> nat option" where
  "digitValue c =
     (if 0x30 \<le> c \<and> c \<le> 0x39 then Some (unat (c - 0x30))
      else if 0x61 \<le> c \<and> c \<le> 0x7A then Some (unat (c - 0x61) + 10)
      else if 0x41 \<le> c \<and> c \<le> 0x5A then Some (unat (c - 0x41) + 10)
      else None)"

definition isRadixDigit :: "nat \<Rightarrow> code_unit \<Rightarrow> bool" where
  "isRadixDigit R c = (case digitValue c of None \<Rightarrow> False | Some d \<Rightarrow> d < R)"

definition digitsValue :: "nat \<Rightarrow> ustring \<Rightarrow> nat" where
  "digitsValue R Z =
     foldl (\<lambda>acc c. acc * R + (case digitValue c of None \<Rightarrow> 0 | Some d \<Rightarrow> d)) 0 Z"

definition parseInt :: "ustring \<Rightarrow> int option" where
  "parseInt inputString =
     (let S0 = trimStart inputString;
          sign = (if S0 \<noteq> [] \<and> hd S0 = 0x2D then - 1 else 1 :: int);
          S1 = (if S0 \<noteq> [] \<and> (hd S0 = 0x2B \<or> hd S0 = 0x2D) then tl S0 else S0);
          hex = (2 \<le> length S1 \<and> (take 2 S1 = js ''0x'' \<or> take 2 S1 = js ''0X''));
          R = (if hex then 16 else 10 :: nat);
          S2 = (if hex then drop 2 S1 else S1);
          Z = takeWhile (isRadixDigit R) S2
      in if Z = [] then None else Some (sign * int (digitsValue R Z)))"

text \<open>
  \<open>String(n)\<close>, as a template literal applies it to an integer: plain decimal, a minus
  sign for a negative number.
\<close>

definition digitChar :: "nat \<Rightarrow> code_unit" where
  "digitChar d = 0x30 + of_nat d"

fun natToString :: "nat \<Rightarrow> ustring" where
  "natToString n = (if n < 10 then [digitChar n] else natToString (n div 10) @ [digitChar (n mod 10)])"

declare natToString.simps [simp del]

definition numberToString :: "int \<Rightarrow> ustring" where
  "numberToString n = (if n < 0 then 0x2D # natToString (nat (- n)) else natToString (nat n))"

section \<open>Configuration, registry devices and side effects\<close>

text \<open>
  \<open>MegaDConfig\<close> as the host hands it over: every part the constructor guards with
  \<open>?.\<close> or \<open>||\<close> may be missing. \<open>unregisterOnShutdown\<close> is the outcome of the
  test \<open>this.config.unregisterOnShutdown === true\<close>.
\<close>

record deviceConfig =
  dev_id :: int
  dev_name :: ustring
  room :: "ustring option"

record hostMqttConfig =
  cfg_broker :: "ustring option"
  cfg_username :: "ustring option"
  cfg_password :: "ustring option"

record platformConfig =
  cfg_mqtt :: "hostMqttConfig option"
  cfg_devices :: "deviceConfig list option"
  unregisterOnShutdown :: bool

text \<open>The plugin's own copy, \<open>this.megaDConfig\<close>, filled in by the constructor.\<close>

record mqttConfig =
  broker :: ustring
  username :: "ustring option"
  password :: "ustring option"

record megaDConfig =
  mqtt :: mqttConfig
  devices :: "deviceConfig list"

text \<open>
  A registered endpoint as \<open>updateDeviceState\<close> and \<open>onConfigure\<close> see it: its
  \<open>uniqueId\<close>, the cluster servers it answers \<open>hasClusterServer\<close> for, and the
  \<open>onOff\<close> attribute of its \<open>onOff\<close> cluster.
\<close>

record device =
  uniqueId :: ustring
  clusterServers :: "ustring list"
  onOff :: bool

text \<open>
  What \<open>createMegaDLight\<close> passes to the endpoint it builds: the storage key and the
  arguments of \<open>createDefaultBridgedDeviceBasicInformationClusterServer\<close>. Its two
  command handlers are the closures \<open>onHandler\<close> and \<open>offHandler\<close> below.
\<close>

record light =
  uniqueStorageKey :: ustring
  deviceName :: ustring
  serialNumber :: ustring
  vendorId :: nat
  vendorName :: ustring
  productName :: ustring
  softwareVersion :: int
  softwareVersionString :: ustring

text \<open>
  The host framework, whose code is not part of the plugin, is a parameter: the member
  \<open>verifyMatterbridgeVersion\<close> the constructor inspects, the two values it reads, and
  what \<open>registerDevice\<close> and \<open>unregisterAllDevices\<close> do to the list \<open>getDevices()\<close>
  returns. Calls into the host and into the MQTT client are taken to return normally.
\<close>

datatype member = Undefined | NotAFunction | Function "ustring \<Rightarrow> bool"

record host =
  verifyMatterbridgeVersion :: member
  matterbridgeVersion :: ustring
  aggregatorVendorId :: nat
  registerDevice :: "light \<Rightarrow> device list \<Rightarrow> device list"
  unregisterAllDevices :: "device list \<Rightarrow> device list"

record clientOptions =
  opt_username :: "ustring option"
  opt_password :: "ustring option"

record client =
  url :: ustring
  options :: clientOptions

datatype level = Info | Warn | Error

text \<open>Every call that leaves the plugin, in the order it is made.\<close>

datatype effect =
    Log level ustring
  | AwaitReady
  | ClearSelect
  | Connect ustring clientOptions
  | On ustring
  | Subscribe ustring
  | Publish ustring ustring
  | EndAsync
  | SuperOnConfigure
  | SuperOnShutdown "ustring option"
  | RegisterDevice light
  | UnregisterAllDevices
  | SetAttribute ustring ustring ustring bool

record platform =
  matterbridge :: host
  config :: platformConfig
  megaDConfig :: megaDConfig
  mqttClient :: "client option"
  getDevices :: "device list"
  effects :: "effect list"

definition emit :: "effect \<Rightarrow> platform \<Rightarrow> platform" where
  "emit e s = s\<lparr>effects := effects s @ [e]\<rparr>"

definition log_info :: "ustring \<Rightarrow> platform \<Rightarrow> platform" where
  "log_info m = emit (Log Info m)"

definition log_warn :: "ustring \<Rightarrow> platform \<Rightarrow> platform" where
  "log_warn m = emit (Log Warn m)"

definition log_error :: "ustring \<Rightarrow> platform \<Rightarrow> platform" where
  "log_error m = emit (Log Error m)"

definition truthy :: "ustring option \<Rightarrow> bool" where
  "truthy v = (case v of None \<Rightarrow> False | Some x \<Rightarrow> x \<noteq> [])"

section \<open>The platform\<close>

datatype jsError = JsError ustring

definition defaultDevices :: "deviceConfig list" where
  "defaultDevices = [\<lparr>dev_id = 11, dev_name = js ''Bedroom Light'', room = Some (js ''Bedroom'')\<rparr>]"

definition buildConfig :: "platformConfig \<Rightarrow> megaDConfig" where
  "buildConfig c =
     \<lparr>mqtt =
        \<lparr>broker =
           (case cfg_mqtt c of
              None \<Rightarrow> js ''mqtt://localhost:1883''
            | Some m \<Rightarrow>
                (case cfg_broker m of
                   None \<Rightarrow> js ''mqtt://localhost:1883''
                 | Some b \<Rightarrow> if b = [] then js ''mqtt://localhost:1883'' else b)),
         username = (case cfg_mqtt c of None \<Rightarrow> None | Some m \<Rightarrow> cfg_username m),
         password = (case cfg_mqtt c of None \<Rightarrow> None | Some m \<Rightarrow> cfg_password m)\<rparr>,
      devices = (case cfg_devices c of None \<Rightarrow> defaultDevices | Some ds \<Rightarrow> ds)\<rparr>"

definition versionError :: "host \<Rightarrow> jsError" where
  "versionError h =
     JsError (js ''This plugin requires Matterbridge version >= \"3.0.7\". Please update Matterbridge from ''
              @ matterbridgeVersion h @ js '' to the latest version in the frontend.\"'')"

definition versionOk :: "host \<Rightarrow> bool" where
  "versionOk h =
     (case verifyMatterbridgeVersion h of
        Undefined \<Rightarrow> False
      | NotAFunction \<Rightarrow> False
      | Function f \<Rightarrow> f (js ''3.0.7''))"

definition construct :: "host \<Rightarrow> platformConfig \<Rightarrow> jsError + platform" where
  "construct h c =
     (let s = \<lparr>matterbridge = h, config = c, megaDConfig = buildConfig c,
                mqttClient = None, getDevices = [], effects = []\<rparr>
      in if \<not> versionOk h then Inl (versionError h)
         else Inr (log_info (js ''Configured devices: ''
                             @ numberToString (int (length (devices (megaDConfig s)))))
                  (log_info (js ''MQTT Broker: '' @ broker (mqtt (megaDConfig s)))
                  (log_info (js ''Initializing MegaD Platform...'') s))))"

subsection \<open>MQTT: connecting, the event handlers, publishing\<close>

definition initializeMqtt :: "platform \<Rightarrow> platform" where
  "initializeMqtt s =
     (if broker (mqtt (megaDConfig s)) = [] then
        log_warn (js ''MQTT broker not configured - devices will be created but MQTT functionality will be disabled'') s
      else
        let s1 = log_info (js ''Connecting to MQTT broker: '' @ broker (mqtt (megaDConfig s))) s;
            opts = (if truthy (username (mqtt (megaDConfig s)))
                    then \<lparr>opt_username = username (mqtt (megaDConfig s)),
                          opt_password = password (mqtt (megaDConfig s))\<rparr>
                    else \<lparr>opt_username = None, opt_password = None\<rparr>);
            s2 = (emit (Connect (broker (mqtt (megaDConfig s))) opts) s1)
                   \<lparr>mqttClient := Some \<lparr>url = broker (mqtt (megaDConfig s)), options = opts\<rparr>\<rparr>;
            s3 = emit (On (js ''connect'')) s2;
            s4 = emit (On (js ''error'')) s3
        in emit (On (js ''message'')) s4)"

text \<open>
  The loop of the \<open>connect\<close> handler. The stored device list is always an array, so the
  handler's test \<open>if (this.megaDConfig.devices)\<close> holds; \<open>this.mqttClient?.subscribe\<close>
  skips a null client.
\<close>

fun subscribeAll :: "deviceConfig list \<Rightarrow> platform \<Rightarrow> platform" where
  "subscribeAll [] s = s"
| "subscribeAll (deviceConfig # rest) s =
     (let stateTopic = js ''alex/'' @ numberToString (dev_id deviceConfig);
          s1 = (if mqttClient s \<noteq> None then emit (Subscribe stateTopic) s else s);
          s2 = log_info (js ''Subscribed to '' @ stateTopic) s1
      in subscribeAll rest s2)"

definition onConnect :: "platform \<Rightarrow> platform" where
  "onConnect s = subscribeAll (devices (megaDConfig s)) (log_info (js ''Connected to MQTT broker'') s)"

definition onError :: "ustring \<Rightarrow> platform \<Rightarrow> platform" where
  "onError message s = log_error (js ''MQTT error: '' @ message) s"

definition sendMqttCommand :: "int \<Rightarrow> int \<Rightarrow> platform \<Rightarrow> platform" where
  "sendMqttCommand deviceId state s =
     (if mqttClient s = None then log_error (js ''MQTT client not connected'') s
      else
        let commandTopic = js ''alex/cmd'';
            command = numberToString deviceId @ js '':'' @ numberToString state;
            s1 = log_info (js ''Publishing to '' @ commandTopic @ js '': '' @ command) s
        in emit (Publish commandTopic command) s1)"

text \<open>The two command handlers \<open>createMegaDLight\<close> attaches, with what they capture.\<close>

definition onHandler :: "int \<Rightarrow> ustring \<Rightarrow> platform \<Rightarrow> platform" where
  "onHandler deviceId deviceName' s =
     sendMqttCommand deviceId 1
       (log_info (js ''Turning ON device '' @ numberToString deviceId @ js '' ('' @ deviceName' @ js '')'') s)"

definition offHandler :: "int \<Rightarrow> ustring \<Rightarrow> platform \<Rightarrow> platform" where
  "offHandler deviceId deviceName' s =
     sendMqttCommand deviceId 0
       (log_info (js ''Turning OFF device '' @ numberToString deviceId @ js '' ('' @ deviceName' @ js '')'') s)"

subsection \<open>Inbound messages\<close>

text \<open>\<open>setAttribute\<close> changes the object \<open>find\<close> returned: the first match in the list.\<close>

fun updateFirst :: "('a \<Rightarrow> bool) \<Rightarrow> ('a \<Rightarrow> 'a) \<Rightarrow> 'a list \<Rightarrow> 'a list" where
  "updateFirst P f [] = []"
| "updateFirst P f (x # xs) = (if P x then f x # xs else x # updateFirst P f xs)"

definition updateDeviceState :: "int \<Rightarrow> ustring \<Rightarrow> platform \<Rightarrow> platform" where
  "updateDeviceState deviceId state s =
     (let wanted = (\<lambda>d. uniqueId d = js ''megad_'' @ numberToString deviceId)
      in case find wanted (getDevices s) of
           None \<Rightarrow> log_warn (js ''Device with ID '' @ numberToString deviceId @ js '' not found'') s
         | Some device \<Rightarrow>
             let isOn = (trim state = js ''1'');
                 s1 = log_info (js ''Updating device '' @ numberToString deviceId @ js '' state to: ''
                                @ (if isOn then js ''ON'' else js ''OFF'')) s
             in if js ''onOff'' \<in> set (clusterServers device) then
                  (emit (SetAttribute (uniqueId device) (js ''onOff'') (js ''onOff'') isOn) s1)
                    \<lparr>getDevices := updateFirst wanted (\<lambda>d. d\<lparr>onOff := isOn\<rparr>) (getDevices s1)\<rparr>
                else s1)"

definition handleMqttMessage :: "ustring \<Rightarrow> ustring \<Rightarrow> platform \<Rightarrow> platform" where
  "handleMqttMessage topic message s =
     (let s1 = log_info (js ''MQTT message received - Topic: '' @ topic @ js '', Message: '' @ message) s;
          topicParts = split 0x2F topic
      in if length topicParts = 2 \<and> topicParts ! 0 = js ''alex'' then
           (case parseInt (topicParts ! 1) of
              None \<Rightarrow> s1
            | Some deviceId \<Rightarrow> updateDeviceState deviceId message s1)
         else s1)"

subsection \<open>Device creation\<close>

text \<open>The endpoint description \<open>createMegaDLight\<close> builds for a device id and name.\<close>

definition megaDLight :: "host \<Rightarrow> int \<Rightarrow> ustring \<Rightarrow> light" where
  "megaDLight h deviceId deviceName' =
     \<lparr>uniqueStorageKey = js ''megad_'' @ numberToString deviceId,
      deviceName = deviceName',
      serialNumber = js ''MEGAD'' @ numberToString deviceId,
      vendorId = aggregatorVendorId h,
      vendorName = js ''MegaD'',
      productName = js ''MegaD Light '' @ numberToString deviceId,
      softwareVersion = deviceId,
      softwareVersionString = js ''1.0.0''\<rparr>"

definition createMegaDLight :: "int \<Rightarrow> ustring \<Rightarrow> platform \<Rightarrow> platform" where
  "createMegaDLight deviceId deviceName' s =
     (let light = megaDLight (matterbridge s) deviceId deviceName';
          s1 = (emit (RegisterDevice light) s)
                 \<lparr>getDevices := registerDevice (matterbridge s) light (getDevices s)\<rparr>
      in log_info (js ''Registered MegaD light: '' @ deviceName' @ js '' (ID: ''
                   @ numberToString deviceId @ js '')'') s1)"

text \<open>
  The loop of \<open>createDevices\<close>, and \<open>createDevices\<close>: of its test
  \<open>!this.megaDConfig.devices || this.megaDConfig.devices.length === 0\<close> only the length
  can decide, the stored list being an array.
\<close>

fun createConfigured :: "deviceConfig list \<Rightarrow> platform \<Rightarrow> platform" where
  "createConfigured [] s = s"
| "createConfigured (deviceConfig # rest) s =
     (let s1 = log_info (js ''Creating configured device: '' @ dev_name deviceConfig @ js '' (ID: ''
                         @ numberToString (dev_id deviceConfig) @ js '')'') s
      in createConfigured rest (createMegaDLight (dev_id deviceConfig) (dev_name deviceConfig) s1))"

definition createDevices :: "platform \<Rightarrow> platform" where
  "createDevices s =
     (if devices (megaDConfig s) = [] then
        createMegaDLight 11 (js ''Bedroom Light'')
          (log_info (js ''No devices configured, creating default bedroom light with ID 11'') s)
      else createConfigured (devices (megaDConfig s)) s)"

subsection \<open>Lifecycle hooks\<close>

definition orNone :: "ustring option \<Rightarrow> ustring" where
  "orNone reason = (case reason of None \<Rightarrow> js ''none'' | Some r \<Rightarrow> r)"

definition onStart :: "ustring option \<Rightarrow> platform \<Rightarrow> platform" where
  "onStart reason s =
     (let s1 = log_info (js ''onStart called with reason: '' @ orNone reason) s;
          s2 = emit AwaitReady s1;
          s3 = emit ClearSelect s2;
          s4 = initializeMqtt s3
      in createDevices s4)"

fun configureAll :: "device list \<Rightarrow> platform \<Rightarrow> platform" where
  "configureAll [] s = s"
| "configureAll (device # rest) s =
     configureAll rest (log_info (js ''Configuring device: '' @ uniqueId device) s)"

definition onConfigure :: "platform \<Rightarrow> platform" where
  "onConfigure s =
     (let s1 = emit SuperOnConfigure s;
          s2 = log_info (js ''onConfigure called'') s1
      in configureAll (getDevices s2) s2)"

definition onChangeLoggerLevel :: "ustring \<Rightarrow> platform \<Rightarrow> platform" where
  "onChangeLoggerLevel logLevel s = log_info (js ''onChangeLoggerLevel called with: '' @ logLevel) s"

definition onShutdown :: "ustring option \<Rightarrow> platform \<Rightarrow> platform" where
  "onShutdown reason s =
     (let s1 = (if mqttClient s \<noteq> None then
                  (emit EndAsync (log_info (js ''Disconnecting MQTT client...'') s))\<lparr>mqttClient := None\<rparr>
                else s);
          s2 = emit (SuperOnShutdown reason) s1;
          s3 = log_info (js ''onShutdown called with reason: '' @ orNone reason) s2
      in if unregisterOnShutdown (config s3) then
           (emit UnregisterAllDevices s3)
             \<lparr>getDevices := unregisterAllDevices (matterbridge s3) (getDevices s3)\<rparr>
         else s3)"

section \<open>Reachable states, observations and sample inputs\<close>

text \<open>
  The states a platform instance can be in: the one the constructor returns, and
  whatever the host's lifecycle calls, the MQTT client's events and the endpoints'
  command handlers make of it. The host owns \<open>this.config\<close> and may change it at any
  time.
\<close>

inductive reachable :: "platform \<Rightarrow> bool" where
  constructed: "construct h c = Inr s \<Longrightarrow> reachable s"
| started: "reachable s \<Longrightarrow> reachable (onStart reason s)"
| configured: "reachable s \<Longrightarrow> reachable (onConfigure s)"
| loggerLevel: "reachable s \<Longrightarrow> reachable (onChangeLoggerLevel logLevel s)"
| shutDown: "reachable s \<Longrightarrow> reachable (onShutdown reason s)"
| connectEvent: "reachable s \<Longrightarrow> reachable (onConnect s)"
| errorEvent: "reachable s \<Longrightarrow> reachable (onError message s)"
| messageEvent: "reachable s \<Longrightarrow> reachable (handleMqttMessage topic message s)"
| onCommand: "reachable s \<Longrightarrow> reachable (onHandler deviceId deviceName' s)"
| offCommand: "reachable s \<Longrightarrow> reachable (offHandler deviceId deviceName' s)"
| reconfigured: "reachable s \<Longrightarrow> reachable (s\<lparr>config := c\<rparr>)"

text \<open>What an observer of the MQTT client, the registry and the logger sees.\<close>

definition published :: "effect list \<Rightarrow> (ustring \<times> ustring) list" where
  "published es = concat (map (\<lambda>e. case e of Publish t p \<Rightarrow> [(t, p)] | _ \<Rightarrow> []) es)"

definition subscribed :: "effect list \<Rightarrow> ustring list" where
  "subscribed es = concat (map (\<lambda>e. case e of Subscribe t \<Rightarrow> [t] | _ \<Rightarrow> []) es)"

definition registered :: "effect list \<Rightarrow> light list" where
  "registered es = concat (map (\<lambda>e. case e of RegisterDevice l \<Rightarrow> [l] | _ \<Rightarrow> []) es)"

definition logged :: "effect list \<Rightarrow> (level \<times> ustring) list" where
  "logged es = concat (map (\<lambda>e. case e of Log l m \<Rightarrow> [(l, m)] | _ \<Rightarrow> []) es)"

definition disconnects :: "effect list \<Rightarrow> nat" where
  "disconnects es = length (filter (\<lambda>e. e = EndAsync) es)"

definition attributeWrites :: "effect list \<Rightarrow> nat" where
  "attributeWrites es =
     length (filter (\<lambda>e. case e of SetAttribute u c a v \<Rightarrow> True | _ \<Rightarrow> False) es)"

text \<open>
  The specification's reading of a device id in a topic: a decimal integer, that is an
  optional minus sign and one or more decimal digits.
\<close>

definition isDecimalDigit :: "code_unit \<Rightarrow> bool" where
  "isDecimalDigit c = (0x30 \<le> c \<and> c \<le> 0x39)"

definition specInteger :: "ustring \<Rightarrow> bool" where
  "specInteger seg =
     (case seg of
        [] \<Rightarrow> False
      | c # cs \<Rightarrow> if c = 0x2D then cs \<noteq> [] \<and> list_all isDecimalDigit cs
                 else list_all isDecimalDigit (c # cs))"

text \<open>
  A sample host, whose registry files an endpoint under its storage key, sample
  configurations, and sample platform states: one device \<open>megad_11\<close>, with or without
  the \<open>onOff\<close> cluster, with or without a client, and one with an empty stored broker.
\<close>

definition sampleHost :: host where
  "sampleHost =
     \<lparr>verifyMatterbridgeVersion = Function (\<lambda>v. True),
      matterbridgeVersion = js ''3.0.7'',
      aggregatorVendorId = 65521,
      registerDevice = (\<lambda>l ds. ds @ [\<lparr>uniqueId = uniqueStorageKey l,
                                           clusterServers = [js ''onOff''], onOff = False\<rparr>]),
      unregisterAllDevices = (\<lambda>ds. [])\<rparr>"

definition oldHost :: host where
  "oldHost = sampleHost\<lparr>verifyMatterbridgeVersion := Function (\<lambda>v. False),
                        matterbridgeVersion := js ''2.0.0''\<rparr>"

definition noBrokerConfig :: platformConfig where
  "noBrokerConfig = \<lparr>cfg_mqtt = None, cfg_devices = Some [], unregisterOnShutdown = False\<rparr>"

definition sampleDevice :: device where
  "sampleDevice = \<lparr>uniqueId = js ''megad_11'', clusterServers = [js ''onOff''], onOff = False\<rparr>"

definition samplePlatform :: platform where
  "samplePlatform =
     \<lparr>matterbridge = sampleHost, config = noBrokerConfig, megaDConfig = buildConfig noBrokerConfig,
      mqttClient = None, getDevices = [sampleDevice], effects = []\<rparr>"

definition sampleClient :: client where
  "sampleClient = \<lparr>url = js ''mqtt://localhost:1883'',
                   options = \<lparr>opt_username = None, opt_password = None\<rparr>\<rparr>"

definition connectedPlatform :: platform where
  "connectedPlatform = samplePlatform\<lparr>mqttClient := Some sampleClient\<rparr>"

definition bareDevicePlatform :: platform where
  "bareDevicePlatform = samplePlatform\<lparr>getDevices := [sampleDevice\<lparr>clusterServers := []\<rparr>]\<rparr>"

definition oneDeviceConfig :: platformConfig where
  "oneDeviceConfig =
     \<lparr>cfg_mqtt = Some \<lparr>cfg_broker = Some (js ''mqtt://broker:1883''),
                        cfg_username = Some (js ''megad''), cfg_password = Some (js ''secret'')\<rparr>,
      cfg_devices = Some [\<lparr>dev_id = 11, dev_name = js ''Bedroom Light'', room = None\<rparr>],
      unregisterOnShutdown = False\<rparr>"

definition missingDevicesConfig :: platformConfig where
  "missingDevicesConfig = \<lparr>cfg_mqtt = None, cfg_devices = None, unregisterOnShutdown = False\<rparr>"

definition brokerlessPlatform :: platform where
  "brokerlessPlatform =
     samplePlatform\<lparr>megaDConfig :=
       \<lparr>mqtt = \<lparr>broker = [], username = None, password = None\<rparr>, devices = []\<rparr>\<rparr>"

text \<open>
  The effects start-up is expected to produce: the options \<open>initializeMqtt\<close> connects
  with, and the three effects of creating one configured device or the default one.
\<close>

abbreviation connectOptions :: "mqttConfig \<Rightarrow> clientOptions" where
  "connectOptions m \<equiv>
     (if truthy (username m) then \<lparr>opt_username = username m, opt_password = password m\<rparr>
      else \<lparr>opt_username = None, opt_password = None\<rparr>)"

abbreviation creating :: "host \<Rightarrow> deviceConfig \<Rightarrow> effect list" where
  "creating h d \<equiv>
     [Log Info (js ''Creating configured device: '' @ dev_name d @ js '' (ID: ''
                @ numberToString (dev_id d) @ js '')''),
      RegisterDevice (megaDLight h (dev_id d) (dev_name d)),
      Log Info (js ''Registered MegaD light: '' @ dev_name d @ js '' (ID: ''
                @ numberToString (dev_id d) @ js '')'')]"

abbreviation creatingDefault :: "host \<Rightarrow> effect list" where
  "creatingDefault h \<equiv>
     [Log Info (js ''No devices configured, creating default bedroom light with ID 11''),
      RegisterDevice (megaDLight h 11 (js ''Bedroom Light'')),
      Log Info (js ''Registered MegaD light: Bedroom Light (ID: 11)'')]"

text \<open>The state after the log line that opens \<open>handleMqttMessage\<close>.\<close>

abbreviation received :: "ustring \<Rightarrow> ustring \<Rightarrow> platform \<Rightarrow> platform" where
  "received topic payload s \<equiv>
     log_info (js ''MQTT message received - Topic: '' @ topic @ js '', Message: '' @ payload) s"

section \<open>Facts about literals\<close>

lemma js_Nil [simp]: "js [] = []"
  by (simp add: js_def)

lemma js_Cons: "js (c # cs) = of_nat (of_char c) # js cs"
  by (simp add: js_def)

lemma js_append: "js (a @ b) = js a @ js b"
  by (simp add: js_def)

lemma length_js [simp]: "length (js s) = length s"
  by (simp add: js_def)

lemma js_eq_Nil [simp]: "js s = [] \<longleftrightarrow> s = []"
  by (simp add: js_def)

lemma code_unit_of_char_inj:
  "(of_nat (of_char a) :: code_unit) = of_nat (of_char b) \<longleftrightarrow> a = b"
proof
  assume eq: "(of_nat (of_char a) :: code_unit) = of_nat (of_char b)"
  have bound: "(of_char x :: nat) < 2 ^ LENGTH(16)" for x :: char
  proof -
    have "(of_char x :: nat) mod 256 < 256" by (rule mod_less_divisor) simp
    then have small: "(of_char x :: nat) < 256" by (simp only: of_char_mod_256)
    have "(2::nat) ^ LENGTH(16) = 65536" by simp
    with small show ?thesis by linarith
  qed
  have "unat (of_nat (of_char a) :: code_unit) = unat (of_nat (of_char b) :: code_unit)"
    using eq by simp
  then have "(of_char a :: nat) mod 2 ^ LENGTH(16) = of_char b mod 2 ^ LENGTH(16)"
    by (simp only: unat_of_nat)
  then have "(of_char a :: nat) = of_char b"
    using bound [of a] bound [of b] by (simp only: mod_less)
  then show "a = b" by simp
qed simp

lemma js_inj [simp]: "js a = js b \<longleftrightarrow> a = b"
proof (induction a arbitrary: b)
  case Nil
  show ?case by (cases b) (simp_all add: js_def)
next
  case (Cons x xs)
  show ?case
  proof (cases b)
    case Nil
    then show ?thesis by (simp add: js_def)
  next
    case (Cons y ys)
    then show ?thesis
      using Cons.IH [of ys] by (simp add: js_Cons code_unit_of_char_inj)
  qed
qed

section \<open>Printing and parsing decimal integers, splitting topics\<close>

lemma below_ten: "(d::nat) < 10 \<Longrightarrow> d \<in> {0, 1, 2, 3, 4, 5, 6, 7, 8, 9}"
  by auto

lemma digitValue_digitChar: "d < 10 \<Longrightarrow> digitValue (digitChar d) = Some d"
  using below_ten [of d] by (auto simp: digitValue_def digitChar_def)

lemma isDecimalDigit_digitChar: "d < 10 \<Longrightarrow> isDecimalDigit (digitChar d)"
  using below_ten [of d] by (auto simp: isDecimalDigit_def digitChar_def)

lemma isDecimalDigit_radix: "isDecimalDigit c \<Longrightarrow> isRadixDigit 10 c"
  apply (simp add: isDecimalDigit_def isRadixDigit_def digitValue_def)
  apply (simp add: unat_sub word_le_nat_alt)
  apply unat_arith
  done

lemma isDecimalDigit_not_space: "isDecimalDigit c \<Longrightarrow> \<not> isWhiteSpace c"
  by (auto simp: isDecimalDigit_def isWhiteSpace_def word_le_nat_alt)

lemma isDecimalDigit_not_sign: "isDecimalDigit c \<Longrightarrow> c \<noteq> 0x2D \<and> c \<noteq> 0x2B \<and> c \<noteq> 0x78 \<and> c \<noteq> 0x58"
  by (auto simp: isDecimalDigit_def)

lemma natToString_digits: "list_all isDecimalDigit (natToString n)"
  by (induction n rule: natToString.induct) (subst natToString.simps, simp add: isDecimalDigit_digitChar)

lemma natToString_not_Nil: "natToString n \<noteq> []"
  by (subst natToString.simps) simp

lemma digitsValue_snoc: "digitsValue R (xs @ [c]) = digitsValue R xs * R + (case digitValue c of None \<Rightarrow> 0 | Some d \<Rightarrow> d)"
  by (simp add: digitsValue_def)

lemma digitsValue_natToString: "digitsValue 10 (natToString n) = n"
proof (induction n rule: natToString.induct)
  case (1 n)
  show ?case
  proof (cases "n < 10")
    case True
    then show ?thesis
      by (subst natToString.simps) (simp add: digitsValue_def digitValue_digitChar)
  next
    case False
    then have "digitsValue 10 (natToString (n div 10)) = n div 10" using 1 by simp
    then show ?thesis using False
      by (subst natToString.simps) (simp add: digitsValue_snoc digitValue_digitChar)
  qed
qed

lemma no_hex_prefix:
  assumes "list_all isDecimalDigit ds"
  shows "\<not> (2 \<le> length ds \<and> (take 2 ds = js ''0x'' \<or> take 2 ds = js ''0X''))"
proof (cases ds)
  case Nil
  then show ?thesis by simp
next
  case outer: (Cons c cs)
  show ?thesis
  proof (cases cs)
    case Nil
    then show ?thesis by (simp add: outer)
  next
    case (Cons e es)
    then have "isDecimalDigit e" using assms outer by simp
    then show ?thesis using Cons isDecimalDigit_not_sign [of e] by (simp add: outer js_def)
  qed
qed

lemma takeWhile_digits:
  "list_all isDecimalDigit ds \<Longrightarrow> takeWhile (isRadixDigit 10) ds = ds"
  by (simp add: takeWhile_eq_all_conv list_all_iff isDecimalDigit_radix)

lemma parseInt_digits:
  assumes "ds \<noteq> []" and "list_all isDecimalDigit ds"
  shows "parseInt ds = Some (int (digitsValue 10 ds))"
proof -
  have c: "isDecimalDigit (hd ds)" using assms by (cases ds) auto
  have trim: "trimStart ds = ds"
    using isDecimalDigit_not_space [OF c] assms(1) by (cases ds) (simp_all add: trimStart_def)
  show ?thesis
    unfolding parseInt_def trim Let_def
    using isDecimalDigit_not_sign [OF c]
    by (simp add: no_hex_prefix [OF assms(2)] takeWhile_digits [OF assms(2)] assms(1))
qed

lemma parseInt_minus_digits:
  assumes "ds \<noteq> []" and "list_all isDecimalDigit ds"
  shows "parseInt (0x2D # ds) = Some (- int (digitsValue 10 ds))"
proof -
  have trim: "trimStart (0x2D # ds) = 0x2D # ds"
    by (simp add: trimStart_def isWhiteSpace_def)
  show ?thesis
    unfolding parseInt_def trim Let_def
    by (simp add: no_hex_prefix [OF assms(2)] takeWhile_digits [OF assms(2)] assms(1))
qed

lemma parseInt_numberToString: "parseInt (numberToString n) = Some n"
proof (cases "n < 0")
  case True
  then show ?thesis
    using parseInt_minus_digits [OF natToString_not_Nil natToString_digits, of "nat (- n)"]
    by (simp add: numberToString_def digitsValue_natToString)
next
  case False
  then show ?thesis
    using parseInt_digits [OF natToString_not_Nil natToString_digits, of "nat n"]
    by (simp add: numberToString_def digitsValue_natToString)
qed

lemma split_not_Nil: "split sep t \<noteq> []"
  by (induction t) (auto split: list.splits)

lemma split_no_separator: "sep \<notin> set t \<Longrightarrow> split sep t = [t]"
  by (induction t) auto

lemma split_at_first: "sep \<notin> set a \<Longrightarrow> split sep (a @ sep # b) = a # split sep b"
  by (induction a) auto

lemma split_single: "split sep t = [a] \<longleftrightarrow> t = a \<and> sep \<notin> set a"
proof (induction t arbitrary: a)
  case Nil
  show ?case by auto
next
  case (Cons c cs)
  show ?case
  proof (cases "c = sep")
    case True
    then show ?thesis using split_not_Nil [of sep cs] by auto
  next
    case False
    then show ?thesis using Cons [of "tl a"] split_not_Nil [of sep cs]
      by (cases a) (auto split: list.splits)
  qed
qed

lemma split_two: "split sep t = [a, b] \<longleftrightarrow> t = a @ sep # b \<and> sep \<notin> set a \<and> sep \<notin> set b"
proof (induction t arbitrary: a)
  case Nil
  show ?case by auto
next
  case (Cons c cs)
  show ?case
  proof (cases "c = sep")
    case True
    then show ?thesis by (cases a) (auto simp: split_single)
  next
    case False
    then show ?thesis using Cons [of "tl a"] split_not_Nil [of sep cs]
      by (cases a) (auto split: list.splits)
  qed
qed

lemma numberToString_no_slash: "0x2F \<notin> set (numberToString n)"
proof -
  have "0x2F \<notin> set (natToString m)" for m
    using natToString_digits [of m] by (auto simp: list_all_iff isDecimalDigit_def)
  then show ?thesis by (simp add: numberToString_def)
qed

lemma split_state_topic: "split 0x2F (js ''alex/'' @ numberToString n) = [js ''alex'', numberToString n]"
proof -
  have "js ''alex/'' = js ''alex'' @ [0x2F]" by (simp add: js_def)
  moreover have "0x2F \<notin> set (js ''alex'')" by (simp add: js_def)
  ultimately show ?thesis
    by (simp add: split_two numberToString_no_slash)
qed

lemma natToString_small: "n < 10 \<Longrightarrow> natToString n = [digitChar n]"
  by (subst natToString.simps) simp

lemma natToString_large:
  "10 \<le> n \<Longrightarrow> natToString n = natToString (n div 10) @ [digitChar (n mod 10)]"
  by (subst natToString.simps) simp

lemma numberToString_11: "numberToString 11 = js ''11''"
  by (simp add: numberToString_def natToString_small natToString_large digitChar_def js_def)

lemma numberToString_1: "numberToString 1 = js ''1''"
  by (simp add: numberToString_def natToString_small digitChar_def js_def)

lemma numberToString_0: "numberToString 0 = js ''0''"
  by (simp add: numberToString_def natToString_small digitChar_def js_def)

lemmas evaluate =
  js_def trim_def trimStart_def isWhiteSpace_def parseInt_def isRadixDigit_def digitValue_def
  digitsValue_def numberToString_def natToString_small natToString_large digitChar_def Let_def

lemmas run =
  handleMqttMessage_def updateDeviceState_def log_info_def log_warn_def log_error_def emit_def

section \<open>Observations of a trace\<close>

lemma published_append [simp]: "published (a @ b) = published a @ published b"
  by (simp add: published_def)

lemma published_Nil [simp]: "published [] = []"
  by (simp add: published_def)

lemma published_Cons [simp]:
  "published (e # es) = (case e of Publish t p \<Rightarrow> [(t, p)] | _ \<Rightarrow> []) @ published es"
  by (simp add: published_def)

lemma subscribed_append [simp]: "subscribed (a @ b) = subscribed a @ subscribed b"
  by (simp add: subscribed_def)

lemma subscribed_Nil [simp]: "subscribed [] = []"
  by (simp add: subscribed_def)

lemma subscribed_Cons [simp]:
  "subscribed (e # es) = (case e of Subscribe t \<Rightarrow> [t] | _ \<Rightarrow> []) @ subscribed es"
  by (simp add: subscribed_def)

lemma registered_append [simp]: "registered (a @ b) = registered a @ registered b"
  by (simp add: registered_def)

lemma registered_Nil [simp]: "registered [] = []"
  by (simp add: registered_def)

lemma registered_Cons [simp]:
  "registered (e # es) = (case e of RegisterDevice l \<Rightarrow> [l] | _ \<Rightarrow> []) @ registered es"
  by (simp add: registered_def)

lemma logged_append [simp]: "logged (a @ b) = logged a @ logged b"
  by (simp add: logged_def)

lemma logged_Nil [simp]: "logged [] = []"
  by (simp add: logged_def)

lemma logged_Cons [simp]:
  "logged (e # es) = (case e of Log l m \<Rightarrow> [(l, m)] | _ \<Rightarrow> []) @ logged es"
  by (simp add: logged_def)

lemma disconnects_append [simp]: "disconnects (a @ b) = disconnects a + disconnects b"
  by (simp add: disconnects_def)

lemma disconnects_Nil [simp]: "disconnects [] = 0"
  by (simp add: disconnects_def)

lemma disconnects_Cons [simp]:
  "disconnects (e # es) = (if e = EndAsync then 1 else 0) + disconnects es"
  by (simp add: disconnects_def)

lemma attributeWrites_append [simp]:
  "attributeWrites (a @ b) = attributeWrites a + attributeWrites b"
  by (simp add: attributeWrites_def)

lemma attributeWrites_Nil [simp]: "attributeWrites [] = 0"
  by (simp add: attributeWrites_def)

lemma attributeWrites_Cons [simp]:
  "attributeWrites (e # es) =
     (case e of SetAttribute u c a v \<Rightarrow> 1 | _ \<Rightarrow> 0) + attributeWrites es"
  by (cases e) (simp_all add: attributeWrites_def)

section \<open>Inbound messages\<close>

lemma handleMqttMessage_routed:
  assumes "split 0x2F topic = [js ''alex'', seg]" and "parseInt seg = Some n"
  shows "handleMqttMessage topic payload s =
           updateDeviceState n payload
             (log_info (js ''MQTT message received - Topic: '' @ topic @ js '', Message: '' @ payload) s)"
  using assms by (simp add: handleMqttMessage_def Let_def)

lemma handleMqttMessage_dropped:
  assumes "length (split 0x2F topic) \<noteq> 2 \<or> hd (split 0x2F topic) \<noteq> js ''alex''
           \<or> parseInt (split 0x2F topic ! 1) = None"
  shows "handleMqttMessage topic payload s =
           log_info (js ''MQTT message received - Topic: '' @ topic @ js '', Message: '' @ payload) s"
proof -
  have "hd (split 0x2F topic) = split 0x2F topic ! 0"
    using split_not_Nil [of "0x2F" topic] by (simp add: hd_conv_nth)
  then show ?thesis using assms by (auto simp: handleMqttMessage_def Let_def)
qed

lemma updateDeviceState_written:
  assumes "find (\<lambda>d. uniqueId d = js ''megad_'' @ numberToString n) (getDevices s) = Some d"
    and "js ''onOff'' \<in> set (clusterServers d)"
  shows "getDevices (updateDeviceState n payload s) =
           updateFirst (\<lambda>d. uniqueId d = js ''megad_'' @ numberToString n)
             (\<lambda>d. d\<lparr>onOff := (trim payload = js ''1'')\<rparr>) (getDevices s)"
  using assms by (simp add: updateDeviceState_def Let_def log_info_def emit_def)

lemma specInteger_parses: "specInteger seg \<Longrightarrow> \<exists>n. parseInt seg = Some n"
proof (cases seg)
  case Nil
  assume "specInteger seg"
  then show ?thesis using Nil by (simp add: specInteger_def)
next
  case (Cons c cs)
  assume spec: "specInteger seg"
  show ?thesis
  proof (cases "c = 0x2D")
    case True
    then show ?thesis using spec Cons parseInt_minus_digits [of cs]
      by (simp add: specInteger_def)
  next
    case False
    then show ?thesis using spec Cons parseInt_digits [of seg]
      by (simp add: specInteger_def)
  qed
qed

text \<open>
  The topics the handler routes and the topics it drops. The topic \<open>alex/n\<close> of a safe
  integer \<open>n\<close> is handed to \<open>updateDeviceState\<close> for device \<open>n\<close>; a topic with another
  segment count, another first segment, or a second segment that \<open>parseInt\<close> turns
  into \<open>NaN\<close> only produces the received line.
\<close>

lemma handleMqttMessage_integer_topics:
  "(safeInteger n \<longrightarrow>
      handleMqttMessage (js ''alex/'' @ numberToString n) payload s =
        updateDeviceState n payload (received (js ''alex/'' @ numberToString n) payload s))
   \<and> (length (split 0x2F topic) \<noteq> 2 \<longrightarrow>
      handleMqttMessage topic payload s = received topic payload s)
   \<and> (hd (split 0x2F topic) \<noteq> js ''alex'' \<longrightarrow>
      handleMqttMessage topic payload s = received topic payload s)
   \<and> (split 0x2F topic = [ns, seg] \<and> parseInt seg = None \<longrightarrow>
      handleMqttMessage topic payload s = received topic payload s)"
proof (intro conjI impI)
  show "handleMqttMessage (js ''alex/'' @ numberToString n) payload s =
          updateDeviceState n payload (received (js ''alex/'' @ numberToString n) payload s)"
    by (rule handleMqttMessage_routed [OF split_state_topic parseInt_numberToString])
next
  assume "length (split 0x2F topic) \<noteq> 2"
  then show "handleMqttMessage topic payload s = received topic payload s"
    by (simp add: handleMqttMessage_dropped)
next
  assume "hd (split 0x2F topic) \<noteq> js ''alex''"
  then show "handleMqttMessage topic payload s = received topic payload s"
    by (simp add: handleMqttMessage_dropped)
next
  assume "split 0x2F topic = [ns, seg] \<and> parseInt seg = None"
  then show "handleMqttMessage topic payload s = received topic payload s"
    by (simp add: handleMqttMessage_dropped)
qed

lemma updateDeviceState_acts: "effects (updateDeviceState n payload s) \<noteq> effects s"
  by (simp add: updateDeviceState_def Let_def log_info_def log_warn_def emit_def
        split: option.splits)

lemma numeric_prefix_parses:
  "split 0x2F (js ''alex/11abc'') = [js ''alex'', js ''11abc'']"
  "parseInt (js ''11abc'') = Some 11"
  "split 0x2F (js ''alex/1.5'') = [js ''alex'', js ''1.5'']"
  "parseInt (js ''1.5'') = Some 1"
  by (simp_all add: evaluate)

text \<open>
  Claim C1 has every topic whose second segment is not an integer dropped, with no
  device-state update attempted. The handler does not drop such a topic when the segment
  starts with a number: \<open>parseInt\<close> reads \<open>11abc\<close> as 11 and \<open>1.5\<close> as 1, the \<open>isNaN\<close>
  test lets both pass, and in every state the message goes on to \<open>updateDeviceState\<close>
  for device 11 or device 1, which never leaves the state at the received line. On the
  sample registry the payload \<open>1\<close> on \<open>alex/11abc\<close> writes the attribute of device 11.
\<close>

theorem handleMqttMessage_numeric_prefix:
  "\<not> specInteger (js ''11abc'') \<and> \<not> specInteger (js ''1.5'')
   \<and> handleMqttMessage (js ''alex/11abc'') payload s =
       updateDeviceState 11 payload (received (js ''alex/11abc'') payload s)
   \<and> handleMqttMessage (js ''alex/1.5'') payload s =
       updateDeviceState 1 payload (received (js ''alex/1.5'') payload s)
   \<and> handleMqttMessage (js ''alex/11abc'') payload s \<noteq> received (js ''alex/11abc'') payload s
   \<and> handleMqttMessage (js ''alex/1.5'') payload s \<noteq> received (js ''alex/1.5'') payload s
   \<and> getDevices (handleMqttMessage (js ''alex/11abc'') (js ''1'') samplePlatform) =
       [sampleDevice\<lparr>onOff := True\<rparr>]
   \<and> attributeWrites (effects (handleMqttMessage (js ''alex/11abc'') (js ''1'') samplePlatform)) = 1"
proof -
  have spec: "\<not> specInteger (js ''11abc'') \<and> \<not> specInteger (js ''1.5'')"
    by (simp add: specInteger_def isDecimalDigit_def js_def)
  have a: "handleMqttMessage (js ''alex/11abc'') payload s =
             updateDeviceState 11 payload (received (js ''alex/11abc'') payload s)"
    by (rule handleMqttMessage_routed [OF numeric_prefix_parses(1,2)])
  have b: "handleMqttMessage (js ''alex/1.5'') payload s =
             updateDeviceState 1 payload (received (js ''alex/1.5'') payload s)"
    by (rule handleMqttMessage_routed [OF numeric_prefix_parses(3,4)])
  have c: "handleMqttMessage (js ''alex/11abc'') payload s \<noteq> received (js ''alex/11abc'') payload s"
    unfolding a using updateDeviceState_acts [of 11 payload "received (js ''alex/11abc'') payload s"]
    by auto
  have d: "handleMqttMessage (js ''alex/1.5'') payload s \<noteq> received (js ''alex/1.5'') payload s"
    unfolding b using updateDeviceState_acts [of 1 payload "received (js ''alex/1.5'') payload s"]
    by auto
  have e: "getDevices (handleMqttMessage (js ''alex/11abc'') (js ''1'') samplePlatform) =
             [sampleDevice\<lparr>onOff := True\<rparr>]
           \<and> attributeWrites (effects (handleMqttMessage (js ''alex/11abc'') (js ''1'') samplePlatform)) = 1"
    by (simp add: run evaluate samplePlatform_def sampleDevice_def)
  show ?thesis using spec a b c d e by blast
qed

text \<open>
  Claim C6. A message on a state topic \<open>alex/<id>\<close> whose id no registered device
  carries (no \<open>uniqueId\<close> equals \<open>megad_<id>\<close>) adds the received line and one warning
  to the log and changes nothing else: the device list is the same and no attribute is
  written. The handler returns a state, so nothing propagates.
\<close>

theorem unknown_device_dropped:
  assumes "split 0x2F topic = [js ''alex'', seg]" and "parseInt seg = Some n"
    and "\<forall>d \<in> set (getDevices s). uniqueId d \<noteq> js ''megad_'' @ numberToString n"
  shows "handleMqttMessage topic payload s =
           log_warn (js ''Device with ID '' @ numberToString n @ js '' not found'')
             (received topic payload s)
         \<and> getDevices (handleMqttMessage topic payload s) = getDevices s
         \<and> attributeWrites (effects (handleMqttMessage topic payload s)) = attributeWrites (effects s)
         \<and> logged (effects (handleMqttMessage topic payload s)) =
             logged (effects s)
             @ [(Info, js ''MQTT message received - Topic: '' @ topic @ js '', Message: '' @ payload),
                (Warn, js ''Device with ID '' @ numberToString n @ js '' not found'')]"
proof -
  have none: "find (\<lambda>d. uniqueId d = js ''megad_'' @ numberToString n) (getDevices (received topic payload s)) = None"
    using assms(3) by (simp add: find_None_iff log_info_def emit_def)
  have eq: "handleMqttMessage topic payload s =
           log_warn (js ''Device with ID '' @ numberToString n @ js '' not found'')
             (received topic payload s)"
    unfolding handleMqttMessage_routed [OF assms(1,2)]
    using none by (simp add: updateDeviceState_def)
  show ?thesis unfolding eq by (simp add: log_warn_def log_info_def emit_def)
qed

theorem unknown_device_dropped_witness:
  "logged (effects (handleMqttMessage (js ''alex/99'') (js ''1'') samplePlatform)) =
     [(Info, js ''MQTT message received - Topic: alex/99, Message: 1''),
      (Warn, js ''Device with ID 99 not found'')]
   \<and> getDevices (handleMqttMessage (js ''alex/99'') (js ''1'') samplePlatform) = [sampleDevice]"
proof -
  have a: "split 0x2F (js ''alex/99'') = [js ''alex'', js ''99'']" by (simp add: evaluate)
  have b: "parseInt (js ''99'') = Some 99" by (simp add: evaluate)
  have c: "\<forall>d \<in> set (getDevices samplePlatform). uniqueId d \<noteq> js ''megad_'' @ numberToString 99"
    by (simp add: samplePlatform_def sampleDevice_def evaluate)
  show ?thesis
    using unknown_device_dropped [OF a b c, of "js ''1''"]
    by (simp add: samplePlatform_def evaluate log_warn_def log_info_def emit_def)
qed

lemma updateDeviceState_found_log:
  assumes "find (\<lambda>d. uniqueId d = js ''megad_'' @ numberToString n) (getDevices s) = Some d"
  shows "logged (effects (updateDeviceState n payload s)) =
           logged (effects s)
           @ [(Info, js ''Updating device '' @ numberToString n @ js '' state to: ''
                     @ (if trim payload = js ''1'' then js ''ON'' else js ''OFF''))]"
  using assms by (simp add: updateDeviceState_def Let_def log_info_def emit_def)

text \<open>
  Claim C8, as the code has it. When the device is found but has no \<open>onOff\<close> cluster
  server, the write is skipped: the device list is unchanged and no attribute is written.
  Nothing reports the mismatch: the log gains the received line and the
  \<open>Updating device\<close> line, the same two lines as for a device that has the cluster.
\<close>

theorem missing_capability_skips_write:
  assumes "split 0x2F topic = [js ''alex'', seg]" and "parseInt seg = Some n"
    and "find (\<lambda>d. uniqueId d = js ''megad_'' @ numberToString n) (getDevices s) = Some d"
  shows "(js ''onOff'' \<notin> set (clusterServers d) \<longrightarrow>
            handleMqttMessage topic payload s =
              log_info (js ''Updating device '' @ numberToString n @ js '' state to: ''
                        @ (if trim payload = js ''1'' then js ''ON'' else js ''OFF''))
                (received topic payload s)
            \<and> getDevices (handleMqttMessage topic payload s) = getDevices s
            \<and> attributeWrites (effects (handleMqttMessage topic payload s)) = attributeWrites (effects s))
         \<and> logged (effects (handleMqttMessage topic payload s)) =
             logged (effects s)
             @ [(Info, js ''MQTT message received - Topic: '' @ topic @ js '', Message: '' @ payload),
                (Info, js ''Updating device '' @ numberToString n @ js '' state to: ''
                       @ (if trim payload = js ''1'' then js ''ON'' else js ''OFF''))]"
proof -
  have found: "find (\<lambda>d. uniqueId d = js ''megad_'' @ numberToString n)
                 (getDevices (received topic payload s)) = Some d"
    using assms(3) by (simp add: log_info_def emit_def)
  have log: "logged (effects (handleMqttMessage topic payload s)) =
             logged (effects s)
             @ [(Info, js ''MQTT message received - Topic: '' @ topic @ js '', Message: '' @ payload),
                (Info, js ''Updating device '' @ numberToString n @ js '' state to: ''
                       @ (if trim payload = js ''1'' then js ''ON'' else js ''OFF''))]"
    unfolding handleMqttMessage_routed [OF assms(1,2)] updateDeviceState_found_log [OF found]
    by (simp add: log_info_def emit_def)
  have skip: "handleMqttMessage topic payload s =
              log_info (js ''Updating device '' @ numberToString n @ js '' state to: ''
                        @ (if trim payload = js ''1'' then js ''ON'' else js ''OFF''))
                (received topic payload s)"
    if "js ''onOff'' \<notin> set (clusterServers d)"
    unfolding handleMqttMessage_routed [OF assms(1,2)]
    using found that by (simp add: updateDeviceState_def Let_def)
  show ?thesis using log skip by (auto simp: log_info_def emit_def)
qed

theorem missing_capability_skips_write_witness:
  "handleMqttMessage (js ''alex/11'') (js ''1'') bareDevicePlatform =
     log_info (js ''Updating device 11 state to: ON'')
       (received (js ''alex/11'') (js ''1'') bareDevicePlatform)
   \<and> getDevices (handleMqttMessage (js ''alex/11'') (js ''1'') bareDevicePlatform) =
       [sampleDevice\<lparr>clusterServers := []\<rparr>]"
proof -
  have a: "split 0x2F (js ''alex/11'') = [js ''alex'', js ''11'']" by (simp add: evaluate)
  have b: "parseInt (js ''11'') = Some 11" by (simp add: evaluate)
  have c: "find (\<lambda>d. uniqueId d = js ''megad_'' @ numberToString 11) (getDevices bareDevicePlatform)
             = Some (sampleDevice\<lparr>clusterServers := []\<rparr>)"
    by (simp add: bareDevicePlatform_def samplePlatform_def sampleDevice_def evaluate)
  have d: "js ''onOff'' \<notin> set (clusterServers (sampleDevice\<lparr>clusterServers := []\<rparr>))" by simp
  have e: "js ''Updating device '' @ numberToString 11 @ js '' state to: ''
             @ (if trim (js ''1'') = js ''1'' then js ''ON'' else js ''OFF'')
           = js ''Updating device 11 state to: ON''"
    by (simp add: evaluate)
  show ?thesis
    using missing_capability_skips_write [OF a b c, of "js ''1''"] d
    unfolding e by (simp add: bareDevicePlatform_def samplePlatform_def log_info_def emit_def)
qed

theorem missing_capability_not_logged_counterexample:
  "js ''onOff'' \<notin> set (clusterServers (hd (getDevices bareDevicePlatform)))
   \<and> logged (effects (handleMqttMessage (js ''alex/11'') (js ''1'') bareDevicePlatform)) =
       [(Info, js ''MQTT message received - Topic: alex/11, Message: 1''),
        (Info, js ''Updating device 11 state to: ON'')]
   \<and> logged (effects (handleMqttMessage (js ''alex/11'') (js ''1'') bareDevicePlatform)) =
       logged (effects (handleMqttMessage (js ''alex/11'') (js ''1'') samplePlatform))"
  by (simp add: run evaluate bareDevicePlatform_def samplePlatform_def sampleDevice_def)

section \<open>Commands\<close>

lemma sendMqttCommand_connected:
  assumes "mqttClient s \<noteq> None"
  shows "sendMqttCommand deviceId state s =
           emit (Publish (js ''alex/cmd'') (numberToString deviceId @ js '':'' @ numberToString state))
             (log_info (js ''Publishing to '' @ js ''alex/cmd'' @ js '': ''
                        @ numberToString deviceId @ js '':'' @ numberToString state) s)"
  using assms by (cases "mqttClient s") (simp_all add: sendMqttCommand_def Let_def)

lemma sendMqttCommand_disconnected:
  assumes "mqttClient s = None"
  shows "sendMqttCommand deviceId state s = log_error (js ''MQTT client not connected'') s"
  using assms by (simp add: sendMqttCommand_def)

lemma colon_one: "js '':'' @ numberToString 1 = js '':1''"
  by (simp add: evaluate)

lemma colon_zero: "js '':'' @ numberToString 0 = js '':0''"
  by (simp add: evaluate)

text \<open>
  Claim C2. When a command is published, that is with the MQTT client in place, the
  \<open>on\<close> handler of a device with a safe integer id publishes exactly one message, topic
  \<open>alex/cmd\<close> and payload \<open><deviceId>:1\<close>, and the \<open>off\<close> handler exactly
  \<open><deviceId>:0\<close> on the same topic; for device 11 the payload is \<open>11:1\<close>. The topic
  does not depend on the device.
\<close>

theorem command_publishes_encoding:
  assumes "mqttClient s \<noteq> None" and "safeInteger deviceId"
  shows "published (effects (onHandler deviceId deviceName' s)) =
           published (effects s) @ [(js ''alex/cmd'', numberToString deviceId @ js '':1'')]
         \<and> published (effects (offHandler deviceId deviceName' s)) =
           published (effects s) @ [(js ''alex/cmd'', numberToString deviceId @ js '':0'')]
         \<and> published (effects (onHandler 11 deviceName' s)) =
           published (effects s) @ [(js ''alex/cmd'', js ''11:1'')]"
proof -
  have client: "mqttClient (log_info m s) \<noteq> None" for m
    using assms(1) by (simp add: log_info_def emit_def)
  have on: "published (effects (onHandler i deviceName' s)) =
              published (effects s) @ [(js ''alex/cmd'', numberToString i @ js '':1'')]" for i
    unfolding onHandler_def sendMqttCommand_connected [OF client] colon_one
    by (simp add: log_info_def emit_def)
  have off: "published (effects (offHandler deviceId deviceName' s)) =
              published (effects s) @ [(js ''alex/cmd'', numberToString deviceId @ js '':0'')]"
    unfolding offHandler_def sendMqttCommand_connected [OF client] colon_zero
    by (simp add: log_info_def emit_def)
  have eleven: "numberToString 11 @ js '':1'' = js ''11:1''" by (simp add: evaluate)
  show ?thesis using on [of deviceId] on [of 11] off by (simp add: eleven)
qed

theorem command_publishes_encoding_witness:
  "published (effects (onHandler 11 (js ''Bedroom Light'') connectedPlatform)) = [(js ''alex/cmd'', js ''11:1'')]
   \<and> published (effects (offHandler 11 (js ''Bedroom Light'') connectedPlatform)) = [(js ''alex/cmd'', js ''11:0'')]"
proof -
  have a: "mqttClient connectedPlatform \<noteq> None" by (simp add: connectedPlatform_def)
  have safe: "safeInteger 11" by (simp add: safeInteger_def)
  have b: "effects connectedPlatform = []" by (simp add: connectedPlatform_def samplePlatform_def)
  have c: "numberToString 11 @ js '':0'' = js ''11:0''" by (simp add: evaluate)
  have d: "numberToString 11 @ js '':1'' = js ''11:1''" by (simp add: evaluate)
  show ?thesis
    using command_publishes_encoding [OF a safe, of "js ''Bedroom Light''"]
    unfolding b c d by simp
qed

text \<open>
  Claim C7, as the code has it. With no MQTT client, a command handler adds its
  \<open>Turning ON\<close> or \<open>Turning OFF\<close> line and the line \<open>MQTT client not connected\<close>, which
  is logged at error level, and does nothing else: nothing is published, nothing is kept
  for later, no client appears.
\<close>

theorem command_without_client:
  assumes "mqttClient s = None"
  shows "onHandler deviceId deviceName' s =
           log_error (js ''MQTT client not connected'')
             (log_info (js ''Turning ON device '' @ numberToString deviceId @ js '' ('' @ deviceName' @ js '')'') s)
         \<and> offHandler deviceId deviceName' s =
           log_error (js ''MQTT client not connected'')
             (log_info (js ''Turning OFF device '' @ numberToString deviceId @ js '' ('' @ deviceName' @ js '')'') s)
         \<and> published (effects (onHandler deviceId deviceName' s)) = published (effects s)
         \<and> published (effects (offHandler deviceId deviceName' s)) = published (effects s)
         \<and> mqttClient (onHandler deviceId deviceName' s) = None
         \<and> mqttClient (offHandler deviceId deviceName' s) = None"
proof -
  have client: "mqttClient (log_info m s) = None" for m
    using assms by (simp add: log_info_def emit_def)
  show ?thesis
    unfolding onHandler_def offHandler_def sendMqttCommand_disconnected [OF client]
    using assms by (simp add: log_info_def log_error_def emit_def)
qed

theorem command_without_client_witness:
  "logged (effects (onHandler 11 (js ''Bedroom Light'') samplePlatform)) =
     [(Info, js ''Turning ON device 11 (Bedroom Light)''), (Error, js ''MQTT client not connected'')]
   \<and> published (effects (onHandler 11 (js ''Bedroom Light'') samplePlatform)) = []"
proof -
  have a: "mqttClient samplePlatform = None" by (simp add: samplePlatform_def)
  show ?thesis
    using command_without_client [OF a, of 11 "js ''Bedroom Light''"]
    by (simp add: samplePlatform_def evaluate log_info_def log_error_def emit_def)
qed

theorem command_without_client_warning_counterexample:
  "mqttClient samplePlatform = None
   \<and> logged (effects (onHandler 11 (js ''Bedroom Light'') samplePlatform)) =
       [(Info, js ''Turning ON device 11 (Bedroom Light)''), (Error, js ''MQTT client not connected'')]
   \<and> filter (\<lambda>(l, m). l = Warn) (logged (effects (onHandler 11 (js ''Bedroom Light'') samplePlatform))) = []"
  by (simp add: samplePlatform_def onHandler_def sendMqttCommand_def evaluate log_info_def log_error_def emit_def)

section \<open>What each operation leaves alone\<close>

lemma emit_fields [simp]:
  "megaDConfig (emit e s) = megaDConfig s" "matterbridge (emit e s) = matterbridge s"
  "mqttClient (emit e s) = mqttClient s" "getDevices (emit e s) = getDevices s"
  "config (emit e s) = config s" "effects (emit e s) = effects s @ [e]"
  by (simp_all add: emit_def)

lemma log_fields [simp]:
  "megaDConfig (log_info m s) = megaDConfig s" "matterbridge (log_info m s) = matterbridge s"
  "mqttClient (log_info m s) = mqttClient s" "getDevices (log_info m s) = getDevices s"
  "config (log_info m s) = config s" "effects (log_info m s) = effects s @ [Log Info m]"
  "megaDConfig (log_warn m s) = megaDConfig s" "matterbridge (log_warn m s) = matterbridge s"
  "mqttClient (log_warn m s) = mqttClient s" "getDevices (log_warn m s) = getDevices s"
  "config (log_warn m s) = config s" "effects (log_warn m s) = effects s @ [Log Warn m]"
  "megaDConfig (log_error m s) = megaDConfig s" "matterbridge (log_error m s) = matterbridge s"
  "mqttClient (log_error m s) = mqttClient s" "getDevices (log_error m s) = getDevices s"
  "config (log_error m s) = config s" "effects (log_error m s) = effects s @ [Log Error m]"
  by (simp_all add: log_info_def log_warn_def log_error_def)

lemma initializeMqtt_fields [simp]:
  "megaDConfig (initializeMqtt s) = megaDConfig s" "matterbridge (initializeMqtt s) = matterbridge s"
  "getDevices (initializeMqtt s) = getDevices s"
  by (simp_all add: initializeMqtt_def Let_def)

lemma initializeMqtt_connects:
  assumes "broker (mqtt (megaDConfig s)) \<noteq> []"
  shows "effects (initializeMqtt s) =
           effects s
           @ [Log Info (js ''Connecting to MQTT broker: '' @ broker (mqtt (megaDConfig s))),
              Connect (broker (mqtt (megaDConfig s))) (connectOptions (mqtt (megaDConfig s))),
              On (js ''connect''), On (js ''error''), On (js ''message'')]"
    and "mqttClient (initializeMqtt s) =
           Some \<lparr>url = broker (mqtt (megaDConfig s)), options = connectOptions (mqtt (megaDConfig s))\<rparr>"
  using assms by (simp_all add: initializeMqtt_def Let_def)

lemma initializeMqtt_degraded:
  assumes "broker (mqtt (megaDConfig s)) = []"
  shows "initializeMqtt s =
           log_warn (js ''MQTT broker not configured - devices will be created but MQTT functionality will be disabled'') s"
  using assms by (simp add: initializeMqtt_def)

lemma createMegaDLight_fields [simp]:
  "megaDConfig (createMegaDLight i nm s) = megaDConfig s"
  "matterbridge (createMegaDLight i nm s) = matterbridge s"
  "mqttClient (createMegaDLight i nm s) = mqttClient s"
  "effects (createMegaDLight i nm s) =
     effects s @ [RegisterDevice (megaDLight (matterbridge s) i nm),
                  Log Info (js ''Registered MegaD light: '' @ nm @ js '' (ID: '' @ numberToString i @ js '')'')]"
  "getDevices (createMegaDLight i nm s) = registerDevice (matterbridge s) (megaDLight (matterbridge s) i nm) (getDevices s)"
  by (simp_all add: createMegaDLight_def Let_def)

lemma createConfigured_fields [simp]:
  "megaDConfig (createConfigured ds s) = megaDConfig s"
  "matterbridge (createConfigured ds s) = matterbridge s"
  "mqttClient (createConfigured ds s) = mqttClient s"
  by (induction ds arbitrary: s) (simp_all add: Let_def)

lemma createConfigured_effects:
  "effects (createConfigured ds s) = effects s @ concat (map (creating (matterbridge s)) ds)"
  by (induction ds arbitrary: s) (simp_all add: Let_def)

lemma createDevices_fields [simp]:
  "megaDConfig (createDevices s) = megaDConfig s" "matterbridge (createDevices s) = matterbridge s"
  "mqttClient (createDevices s) = mqttClient s"
  by (simp_all add: createDevices_def)

lemma default_line: "js ''Registered MegaD light: '' @ js ''Bedroom Light'' @ js '' (ID: '' @ numberToString 11 @ js '')''
    = js ''Registered MegaD light: Bedroom Light (ID: 11)''"
  by (simp add: numberToString_11 flip: js_append)

lemma createDevices_effects:
  "effects (createDevices s) =
     effects s @ (if devices (megaDConfig s) = [] then creatingDefault (matterbridge s)
                  else concat (map (creating (matterbridge s)) (devices (megaDConfig s))))"
  by (simp add: createDevices_def createConfigured_effects default_line)

lemma subscribeAll_fields [simp]:
  "megaDConfig (subscribeAll ds s) = megaDConfig s" "mqttClient (subscribeAll ds s) = mqttClient s"
  by (induction ds arbitrary: s) (simp_all add: Let_def)

lemma subscribeAll_subscribed:
  "mqttClient s \<noteq> None \<Longrightarrow>
     subscribed (effects (subscribeAll ds s)) =
       subscribed (effects s) @ map (\<lambda>d. js ''alex/'' @ numberToString (dev_id d)) ds"
  by (induction ds arbitrary: s) (simp_all add: Let_def)

lemma onConnect_subscribed:
  "mqttClient s \<noteq> None \<Longrightarrow>
     subscribed (effects (onConnect s)) =
       subscribed (effects s) @ map (\<lambda>d. js ''alex/'' @ numberToString (dev_id d)) (devices (megaDConfig s))"
  by (simp add: onConnect_def subscribeAll_subscribed)

lemma updateDeviceState_config [simp]: "megaDConfig (updateDeviceState n p s) = megaDConfig s"
  by (simp add: updateDeviceState_def Let_def split: option.splits)

lemma handleMqttMessage_config [simp]: "megaDConfig (handleMqttMessage t p s) = megaDConfig s"
  by (simp add: handleMqttMessage_def Let_def split: option.splits)

lemma sendMqttCommand_config [simp]: "megaDConfig (sendMqttCommand i st s) = megaDConfig s"
  by (simp add: sendMqttCommand_def Let_def)

lemma configureAll_config [simp]: "megaDConfig (configureAll ds s) = megaDConfig s"
  by (induction ds arbitrary: s) simp_all

lemma operations_keep_config [simp]:
  "megaDConfig (onStart reason s) = megaDConfig s"
  "megaDConfig (onConfigure s) = megaDConfig s"
  "megaDConfig (onChangeLoggerLevel lv s) = megaDConfig s"
  "megaDConfig (onShutdown reason s) = megaDConfig s"
  "megaDConfig (onConnect s) = megaDConfig s"
  "megaDConfig (onError m s) = megaDConfig s"
  "megaDConfig (onHandler i nm s) = megaDConfig s"
  "megaDConfig (offHandler i nm s) = megaDConfig s"
  by (simp_all add: onStart_def onConfigure_def onChangeLoggerLevel_def onShutdown_def
        onConnect_def onError_def onHandler_def offHandler_def Let_def)

lemma buildConfig_broker: "broker (mqtt (buildConfig c)) \<noteq> []"
  by (simp add: buildConfig_def split: option.splits)

lemma construct_config: "construct h c = Inr s \<Longrightarrow> megaDConfig s = buildConfig c"
  by (auto simp: construct_def Let_def split: if_splits)

lemma reachable_broker: "reachable s \<Longrightarrow> broker (mqtt (megaDConfig s)) \<noteq> []"
  by (induction rule: reachable.induct) (simp_all add: construct_config buildConfig_broker)

section \<open>Start-up\<close>

lemma onStart_connects:
  assumes "reachable s"
  shows "mqttClient (onStart reason s) =
           Some \<lparr>url = broker (mqtt (megaDConfig s)), options = connectOptions (mqtt (megaDConfig s))\<rparr>"
    and "effects (onStart reason s) =
           effects s
           @ [Log Info (js ''onStart called with reason: '' @ orNone reason), AwaitReady, ClearSelect]
           @ [Log Info (js ''Connecting to MQTT broker: '' @ broker (mqtt (megaDConfig s))),
              Connect (broker (mqtt (megaDConfig s))) (connectOptions (mqtt (megaDConfig s))),
              On (js ''connect''), On (js ''error''), On (js ''message'')]
           @ (if devices (megaDConfig s) = [] then creatingDefault (matterbridge s)
              else concat (map (creating (matterbridge s)) (devices (megaDConfig s))))"
proof -
  let ?s3 = "emit ClearSelect (emit AwaitReady
               (log_info (js ''onStart called with reason: '' @ orNone reason) s))"
  have broker: "broker (mqtt (megaDConfig ?s3)) \<noteq> []"
    using reachable_broker [OF assms] by simp
  have start: "onStart reason s = createDevices (initializeMqtt ?s3)"
    by (simp add: onStart_def Let_def)
  show "effects (onStart reason s) =
           effects s
           @ [Log Info (js ''onStart called with reason: '' @ orNone reason), AwaitReady, ClearSelect]
           @ [Log Info (js ''Connecting to MQTT broker: '' @ broker (mqtt (megaDConfig s))),
              Connect (broker (mqtt (megaDConfig s))) (connectOptions (mqtt (megaDConfig s))),
              On (js ''connect''), On (js ''error''), On (js ''message'')]
           @ (if devices (megaDConfig s) = [] then creatingDefault (matterbridge s)
              else concat (map (creating (matterbridge s)) (devices (megaDConfig s))))"
    unfolding start createDevices_effects initializeMqtt_connects(1) [OF broker]
    by simp
  show "mqttClient (onStart reason s) =
             Some \<lparr>url = broker (mqtt (megaDConfig s)), options = connectOptions (mqtt (megaDConfig s))\<rparr>"
    unfolding start using initializeMqtt_connects(2) [OF broker] by simp
qed

text \<open>
  Claim C4. In every reachable state \<open>onStart\<close> produces, after its opening log line and
  in this order: the wait for readiness, the clearing of the selection, the connection to
  the broker with the registration of the three client handlers, and then the creation
  of the devices, one registration per configured device (the default device when none
  is configured). Afterwards the client exists, and the \<open>connect\<close> handler subscribes to
  \<open>alex/<id>\<close> for each configured device, in order.
\<close>

theorem onStart_order:
  assumes "reachable s"
  shows "effects (onStart reason s) =
           effects s
           @ [Log Info (js ''onStart called with reason: '' @ orNone reason), AwaitReady, ClearSelect]
           @ [Log Info (js ''Connecting to MQTT broker: '' @ broker (mqtt (megaDConfig s))),
              Connect (broker (mqtt (megaDConfig s))) (connectOptions (mqtt (megaDConfig s))),
              On (js ''connect''), On (js ''error''), On (js ''message'')]
           @ (if devices (megaDConfig s) = [] then creatingDefault (matterbridge s)
              else concat (map (creating (matterbridge s)) (devices (megaDConfig s))))
         \<and> mqttClient (onStart reason s) =
             Some \<lparr>url = broker (mqtt (megaDConfig s)), options = connectOptions (mqtt (megaDConfig s))\<rparr>
         \<and> subscribed (effects (onConnect (onStart reason s))) =
             subscribed (effects (onStart reason s))
             @ map (\<lambda>d. js ''alex/'' @ numberToString (dev_id d)) (devices (megaDConfig s))"
proof -
  note start = onStart_connects [OF assms, of reason]
  from start(1) have "mqttClient (onStart reason s) \<noteq> None" by simp
  then have "subscribed (effects (onConnect (onStart reason s))) =
             subscribed (effects (onStart reason s))
             @ map (\<lambda>d. js ''alex/'' @ numberToString (dev_id d)) (devices (megaDConfig (onStart reason s)))"
    by (rule onConnect_subscribed)
  then show ?thesis using start by simp
qed

lemma construct_sample:
  "construct sampleHost c =
     Inr (log_info (js ''Configured devices: '' @ numberToString (int (length (devices (buildConfig c)))))
           (log_info (js ''MQTT Broker: '' @ broker (mqtt (buildConfig c)))
             (log_info (js ''Initializing MegaD Platform...'')
               \<lparr>matterbridge = sampleHost, config = c, megaDConfig = buildConfig c,
                mqttClient = None, getDevices = [], effects = []\<rparr>)))"
  by (simp add: construct_def versionOk_def sampleHost_def Let_def)

theorem onStart_order_witness:
  "\<exists>p. construct sampleHost oneDeviceConfig = Inr p
     \<and> effects (onStart None p) =
         effects p
         @ [Log Info (js ''onStart called with reason: none''), AwaitReady, ClearSelect,
            Log Info (js ''Connecting to MQTT broker: mqtt://broker:1883''),
            Connect (js ''mqtt://broker:1883'')
              \<lparr>opt_username = Some (js ''megad''), opt_password = Some (js ''secret'')\<rparr>,
            On (js ''connect''), On (js ''error''), On (js ''message''),
            Log Info (js ''Creating configured device: Bedroom Light (ID: 11)''),
            RegisterDevice (megaDLight sampleHost 11 (js ''Bedroom Light'')),
            Log Info (js ''Registered MegaD light: Bedroom Light (ID: 11)'')]
     \<and> subscribed (effects (onConnect (onStart None p))) = [js ''alex/11'']"
proof -
  obtain p where p: "construct sampleHost oneDeviceConfig = Inr p"
    by (simp add: construct_sample)
  have r: "reachable p" by (rule reachable.constructed [OF p])
  have cfg: "megaDConfig p =
               \<lparr>mqtt = \<lparr>broker = js ''mqtt://broker:1883'', username = Some (js ''megad''),
                        password = Some (js ''secret'')\<rparr>,
                devices = [\<lparr>dev_id = 11, dev_name = js ''Bedroom Light'', room = None\<rparr>]\<rparr>"
    using construct_config [OF p] by (simp add: buildConfig_def oneDeviceConfig_def)
  have host: "matterbridge p = sampleHost"
    using p by (auto simp: construct_sample)
  have none: "subscribed (effects p) = []"
    using p by (auto simp: construct_sample)
  have t: "truthy (Some (js ''megad''))" by (simp add: truthy_def)
  have l1: "js ''Creating configured device: '' @ js ''Bedroom Light'' @ js '' (ID: '' @ numberToString 11 @ js '')''
             = js ''Creating configured device: Bedroom Light (ID: 11)''"
    by (simp add: numberToString_11 flip: js_append)
  have l2: "js ''onStart called with reason: '' @ orNone None = js ''onStart called with reason: none''"
    by (simp add: orNone_def flip: js_append)
  have l3: "js ''Connecting to MQTT broker: '' @ js ''mqtt://broker:1883'' = js ''Connecting to MQTT broker: mqtt://broker:1883''"
    by (simp flip: js_append)
  have l4: "js ''alex/'' @ numberToString 11 = js ''alex/11''"
    by (simp add: numberToString_11 flip: js_append)
  show ?thesis
    using onStart_order [OF r, of None] p
    by (simp add: cfg host none t l1 l2 l3 l4 default_line)
qed

lemma buildConfig_default_broker:
  assumes "cfg_mqtt c = None \<or> (\<exists>m. cfg_mqtt c = Some m \<and> (cfg_broker m = None \<or> cfg_broker m = Some []))"
  shows "broker (mqtt (buildConfig c)) = js ''mqtt://localhost:1883''"
  using assms by (auto simp: buildConfig_def)

lemma createDevices_registered:
  "registered (effects (createDevices s)) =
     registered (effects s)
     @ (if devices (megaDConfig s) = [] then [megaDLight (matterbridge s) 11 (js ''Bedroom Light'')]
        else map (\<lambda>d. megaDLight (matterbridge s) (dev_id d) (dev_name d)) (devices (megaDConfig s)))"
proof -
  have "registered (concat (map (creating h) ds)) = map (\<lambda>d. megaDLight h (dev_id d) (dev_name d)) ds"
    for h ds by (induction ds) simp_all
  then show ?thesis by (simp add: createDevices_effects)
qed

text \<open>
  Claim C3, as the code has it. A configuration whose \<open>mqtt\<close> section or \<open>mqtt.broker\<close>
  is missing or empty gets the default broker \<open>mqtt://localhost:1883\<close> from the
  constructor; so after construction the stored broker is never empty, in any reachable
  state, and \<open>onStart\<close> connects. The branch of \<open>initializeMqtt\<close> that only logs a
  warning and constructs no client belongs to an empty stored broker. Device creation
  does not depend on the client: it registers each configured device, or the default one.
  While there is no client, the command handlers publish nothing.
\<close>

theorem missing_broker_defaults:
  "(cfg_mqtt c = None \<or> (\<exists>m. cfg_mqtt c = Some m \<and> (cfg_broker m = None \<or> cfg_broker m = Some []))
      \<longrightarrow> broker (mqtt (buildConfig c)) = js ''mqtt://localhost:1883'')
   \<and> (construct h c = Inr p \<longrightarrow>
         megaDConfig p = buildConfig c
         \<and> mqttClient (onStart reason p) =
             Some \<lparr>url = broker (mqtt (buildConfig c)), options = connectOptions (mqtt (buildConfig c))\<rparr>
         \<and> Connect (broker (mqtt (buildConfig c))) (connectOptions (mqtt (buildConfig c)))
             \<in> set (effects (onStart reason p)))
   \<and> (reachable s \<longrightarrow> broker (mqtt (megaDConfig s)) \<noteq> [])
   \<and> (broker (mqtt (megaDConfig s)) = [] \<longrightarrow>
         initializeMqtt s =
           log_warn (js ''MQTT broker not configured - devices will be created but MQTT functionality will be disabled'') s)
   \<and> registered (effects (createDevices s)) =
       registered (effects s)
       @ (if devices (megaDConfig s) = [] then [megaDLight (matterbridge s) 11 (js ''Bedroom Light'')]
          else map (\<lambda>d. megaDLight (matterbridge s) (dev_id d) (dev_name d)) (devices (megaDConfig s)))
   \<and> (mqttClient s = None \<longrightarrow>
         published (effects (onHandler deviceId deviceName' s)) = published (effects s)
         \<and> published (effects (offHandler deviceId deviceName' s)) = published (effects s))"
proof (intro conjI impI)
  assume "cfg_mqtt c = None \<or> (\<exists>m. cfg_mqtt c = Some m \<and> (cfg_broker m = None \<or> cfg_broker m = Some []))"
  then show "broker (mqtt (buildConfig c)) = js ''mqtt://localhost:1883''"
    by (rule buildConfig_default_broker)
next
  assume p: "construct h c = Inr p"
  show cfg: "megaDConfig p = buildConfig c" by (rule construct_config [OF p])
  have r: "reachable p" by (rule reachable.constructed [OF p])
  show "mqttClient (onStart reason p) =
          Some \<lparr>url = broker (mqtt (buildConfig c)), options = connectOptions (mqtt (buildConfig c))\<rparr>"
    using onStart_connects [OF r, of reason] by (simp add: cfg)
  show "Connect (broker (mqtt (buildConfig c))) (connectOptions (mqtt (buildConfig c)))
          \<in> set (effects (onStart reason p))"
    using onStart_connects [OF r, of reason] by (simp add: cfg)
next
  assume "reachable s"
  then show "broker (mqtt (megaDConfig s)) \<noteq> []" by (rule reachable_broker)
next
  assume "broker (mqtt (megaDConfig s)) = []"
  then show "initializeMqtt s =
           log_warn (js ''MQTT broker not configured - devices will be created but MQTT functionality will be disabled'') s"
    by (rule initializeMqtt_degraded)
next
  show "registered (effects (createDevices s)) =
       registered (effects s)
       @ (if devices (megaDConfig s) = [] then [megaDLight (matterbridge s) 11 (js ''Bedroom Light'')]
          else map (\<lambda>d. megaDLight (matterbridge s) (dev_id d) (dev_name d)) (devices (megaDConfig s)))"
    by (rule createDevices_registered)
next
  assume none: "mqttClient s = None"
  then have client: "mqttClient (log_info m s) = None" for m
    by simp
  show "published (effects (onHandler deviceId deviceName' s)) = published (effects s)"
    unfolding onHandler_def sendMqttCommand_disconnected [OF client] by simp
  show "published (effects (offHandler deviceId deviceName' s)) = published (effects s)"
    unfolding offHandler_def sendMqttCommand_disconnected [OF client] by simp
qed

theorem missing_broker_defaults_witness:
  "broker (mqtt (buildConfig noBrokerConfig)) = js ''mqtt://localhost:1883''
   \<and> (\<exists>p. construct sampleHost noBrokerConfig = Inr p
          \<and> broker (mqtt (megaDConfig p)) \<noteq> []
          \<and> mqttClient (onStart None p) = Some sampleClient)
   \<and> effects (initializeMqtt brokerlessPlatform) =
       [Log Warn (js ''MQTT broker not configured - devices will be created but MQTT functionality will be disabled'')]
   \<and> mqttClient (initializeMqtt brokerlessPlatform) = None
   \<and> published (effects (onHandler 11 (js ''Bedroom Light'') samplePlatform)) = []"
proof -
  obtain p where p: "construct sampleHost noBrokerConfig = Inr p"
    by (simp add: construct_sample)
  have r: "reachable p" by (rule reachable.constructed [OF p])
  have n: "mqttClient samplePlatform = None \<and> effects samplePlatform = []"
    by (simp add: samplePlatform_def)
  from missing_broker_defaults [of _ _ _ _ samplePlatform 11 "js ''Bedroom Light''"] n
  have third: "published (effects (onHandler 11 (js ''Bedroom Light'') samplePlatform)) = []"
    by simp
  have a: "cfg_mqtt noBrokerConfig = None" by (simp add: noBrokerConfig_def)
  have b: "broker (mqtt (megaDConfig brokerlessPlatform)) = []" by (simp add: brokerlessPlatform_def)
  have t: "\<not> truthy None" by (simp add: truthy_def)
  have c: "buildConfig noBrokerConfig =
             \<lparr>mqtt = \<lparr>broker = js ''mqtt://localhost:1883'', username = None, password = None\<rparr>,
              devices = []\<rparr>"
    by (simp add: buildConfig_def noBrokerConfig_def)
  from missing_broker_defaults [of noBrokerConfig sampleHost p None p 11 "[]"] a p r
  have first: "broker (mqtt (buildConfig noBrokerConfig)) = js ''mqtt://localhost:1883''
      \<and> broker (mqtt (megaDConfig p)) \<noteq> []
      \<and> mqttClient (onStart None p) = Some sampleClient"
    by (simp add: c t sampleClient_def)
  from missing_broker_defaults [of _ _ _ _ brokerlessPlatform 11 "[]"] b
  have "initializeMqtt brokerlessPlatform =
          log_warn (js ''MQTT broker not configured - devices will be created but MQTT functionality will be disabled'')
            brokerlessPlatform"
    by blast
  then have second: "effects (initializeMqtt brokerlessPlatform) =
       [Log Warn (js ''MQTT broker not configured - devices will be created but MQTT functionality will be disabled'')]
     \<and> mqttClient (initializeMqtt brokerlessPlatform) = None"
    by (simp add: brokerlessPlatform_def samplePlatform_def)
  show ?thesis using first second third p by blast
qed

theorem missing_broker_connects_counterexample:
  "cfg_mqtt noBrokerConfig = None
   \<and> (\<exists>p. construct sampleHost noBrokerConfig = Inr p
          \<and> mqttClient p = None
          \<and> mqttClient (onStart None p) = Some sampleClient
          \<and> Connect (js ''mqtt://localhost:1883'') \<lparr>opt_username = None, opt_password = None\<rparr>
              \<in> set (effects (onStart None p)))"
proof -
  have c: "buildConfig noBrokerConfig =
             \<lparr>mqtt = \<lparr>broker = js ''mqtt://localhost:1883'', username = None, password = None\<rparr>,
              devices = []\<rparr>"
    by (simp add: buildConfig_def noBrokerConfig_def)
  have a: "cfg_mqtt noBrokerConfig = None" by (simp add: noBrokerConfig_def)
  show ?thesis
    by (simp add: a construct_sample c onStart_def initializeMqtt_def createDevices_def
          truthy_def sampleClient_def Let_def)
qed

text \<open>
  Claim C9. With an empty device list \<open>createDevices\<close> registers exactly one endpoint,
  for id 11 and name \<open>Bedroom Light\<close>; a configuration whose list is missing gets the
  default list from the constructor and registers the same endpoint. In every state
  \<open>createDevices\<close> registers at least one endpoint.
\<close>

theorem empty_devices_default:
  "(devices (megaDConfig s) = [] \<longrightarrow>
      registered (effects (createDevices s)) =
        registered (effects s) @ [megaDLight (matterbridge s) 11 (js ''Bedroom Light'')])
   \<and> (megaDConfig s = buildConfig c \<and> (cfg_devices c = None \<or> cfg_devices c = Some []) \<longrightarrow>
      registered (effects (createDevices s)) =
        registered (effects s) @ [megaDLight (matterbridge s) 11 (js ''Bedroom Light'')]
      \<and> getDevices (createDevices s) =
          registerDevice (matterbridge s) (megaDLight (matterbridge s) 11 (js ''Bedroom Light'')) (getDevices s))
   \<and> length (registered (effects (createDevices s))) =
       length (registered (effects s)) + max 1 (length (devices (megaDConfig s)))
   \<and> softwareVersion (megaDLight h 11 (js ''Bedroom Light'')) = 11
   \<and> deviceName (megaDLight h 11 (js ''Bedroom Light'')) = js ''Bedroom Light''
   \<and> uniqueStorageKey (megaDLight h 11 (js ''Bedroom Light'')) = js ''megad_11''"
proof (intro conjI impI)
  assume "devices (megaDConfig s) = []"
  then show "registered (effects (createDevices s)) =
        registered (effects s) @ [megaDLight (matterbridge s) 11 (js ''Bedroom Light'')]"
    by (simp add: createDevices_registered)
next
  assume a: "megaDConfig s = buildConfig c \<and> (cfg_devices c = None \<or> cfg_devices c = Some [])"
  then have ds: "devices (megaDConfig s) = [] \<or> devices (megaDConfig s) = defaultDevices"
    by (auto simp: buildConfig_def)
  then show "registered (effects (createDevices s)) =
        registered (effects s) @ [megaDLight (matterbridge s) 11 (js ''Bedroom Light'')]"
    by (auto simp: createDevices_registered defaultDevices_def)
  from ds show "getDevices (createDevices s) =
          registerDevice (matterbridge s) (megaDLight (matterbridge s) 11 (js ''Bedroom Light'')) (getDevices s)"
    by (auto simp: createDevices_def defaultDevices_def Let_def)
next
  show "length (registered (effects (createDevices s))) =
       length (registered (effects s)) + max 1 (length (devices (megaDConfig s)))"
    by (cases "devices (megaDConfig s)") (simp_all add: createDevices_registered)
next
  show "softwareVersion (megaDLight h 11 (js ''Bedroom Light'')) = 11"
    by (simp add: megaDLight_def)
next
  show "deviceName (megaDLight h 11 (js ''Bedroom Light'')) = js ''Bedroom Light''"
    by (simp add: megaDLight_def)
next
  show "uniqueStorageKey (megaDLight h 11 (js ''Bedroom Light'')) = js ''megad_11''"
    by (simp add: megaDLight_def numberToString_11 flip: js_append)
qed

theorem empty_devices_default_witness:
  "cfg_devices noBrokerConfig = Some [] \<and> cfg_devices missingDevicesConfig = None
   \<and> (\<exists>p q. construct sampleHost noBrokerConfig = Inr p
            \<and> construct sampleHost missingDevicesConfig = Inr q
            \<and> registered (effects (createDevices p)) = [megaDLight sampleHost 11 (js ''Bedroom Light'')]
            \<and> registered (effects (createDevices q)) = [megaDLight sampleHost 11 (js ''Bedroom Light'')])"
proof -
  obtain p where p: "construct sampleHost noBrokerConfig = Inr p"
    by (simp add: construct_sample)
  obtain q where q: "construct sampleHost missingDevicesConfig = Inr q"
    by (simp add: construct_sample)
  have pc: "megaDConfig p = buildConfig noBrokerConfig" by (rule construct_config [OF p])
  have qc: "megaDConfig q = buildConfig missingDevicesConfig" by (rule construct_config [OF q])
  have pd: "cfg_devices noBrokerConfig = Some []" by (simp add: noBrokerConfig_def)
  have qd: "cfg_devices missingDevicesConfig = None" by (simp add: missingDevicesConfig_def)
  have empty: "devices (megaDConfig p) = []" by (simp add: pc buildConfig_def pd)
  have pe: "registered (effects p) = [] \<and> matterbridge p = sampleHost"
    using p by (auto simp: construct_sample)
  have qe: "registered (effects q) = [] \<and> matterbridge q = sampleHost"
    using q by (auto simp: construct_sample)
  from empty_devices_default [of p noBrokerConfig] empty pc pd pe
  have "registered (effects (createDevices p)) = [megaDLight sampleHost 11 (js ''Bedroom Light'')]"
    by simp
  moreover from empty_devices_default [of q missingDevicesConfig] qc qd qe
  have "registered (effects (createDevices q)) = [megaDLight sampleHost 11 (js ''Bedroom Light'')]"
    by simp
  ultimately show ?thesis using p q pd qd by blast
qed

section \<open>Shutdown\<close>

text \<open>
  Claim C5. After \<open>onShutdown\<close> the client is null, so a second \<open>onShutdown\<close> ends no
  session: the first call ends one session if there was a client and none otherwise, the
  second adds only the host's shutdown hook, the log line and, if configured, the
  deregistration. \<open>onShutdown\<close> has no failing step of its own.
\<close>

theorem onShutdown_idempotent:
  "mqttClient (onShutdown reason1 s) = None
   \<and> disconnects (effects (onShutdown reason1 s)) =
       disconnects (effects s) + (if mqttClient s = None then 0 else 1)
   \<and> disconnects (effects (onShutdown reason2 (onShutdown reason1 s))) =
       disconnects (effects (onShutdown reason1 s))
   \<and> effects (onShutdown reason2 (onShutdown reason1 s)) =
       effects (onShutdown reason1 s)
       @ [SuperOnShutdown reason2, Log Info (js ''onShutdown called with reason: '' @ orNone reason2)]
       @ (if unregisterOnShutdown (config s) then [UnregisterAllDevices] else [])"
  by (simp add: onShutdown_def Let_def log_info_def emit_def)

theorem onShutdown_idempotent_witness:
  "disconnects (effects (onShutdown None connectedPlatform)) = 1
   \<and> disconnects (effects (onShutdown None (onShutdown None connectedPlatform))) = 1
   \<and> mqttClient (onShutdown None connectedPlatform) = None"
proof -
  have a: "mqttClient connectedPlatform \<noteq> None \<and> effects connectedPlatform = []"
    by (simp add: connectedPlatform_def samplePlatform_def)
  show ?thesis
    using onShutdown_idempotent [of None connectedPlatform None] a by simp
qed

section \<open>Construction\<close>

text \<open>
  Claim C10. The constructor throws the version error exactly when the host's
  \<open>verifyMatterbridgeVersion\<close> member is undefined, is not a function, or returns
  false for \<open>"3.0.7"\<close>; in every other case it returns a platform instance, and it
  never does both.
\<close>

theorem construct_version_gate:
  "(construct h c = Inl (versionError h)
      \<longleftrightarrow> (verifyMatterbridgeVersion h = Undefined
           \<or> verifyMatterbridgeVersion h = NotAFunction
           \<or> (\<exists>f. verifyMatterbridgeVersion h = Function f \<and> f (js ''3.0.7'') = False)))
   \<and> ((\<exists>p. construct h c = Inr p)
      \<longleftrightarrow> (\<exists>f. verifyMatterbridgeVersion h = Function f \<and> f (js ''3.0.7'')))"
  by (cases "verifyMatterbridgeVersion h") (auto simp: construct_def versionOk_def Let_def)

theorem construct_version_gate_witness:
  "construct oldHost noBrokerConfig =
     Inl (JsError (js ''This plugin requires Matterbridge version >= \"3.0.7\". Please update Matterbridge from 2.0.0 to the latest version in the frontend.\"''))
   \<and> (\<exists>p. construct sampleHost noBrokerConfig = Inr p)"
proof -
  have a: "verifyMatterbridgeVersion oldHost = Function (\<lambda>v. False)"
    by (simp add: oldHost_def)
  have b: "verifyMatterbridgeVersion sampleHost = Function (\<lambda>v. True)"
    by (simp add: sampleHost_def)
  have c: "versionError oldHost =
     JsError (js ''This plugin requires Matterbridge version >= \"3.0.7\". Please update Matterbridge from 2.0.0 to the latest version in the frontend.\"'')"
    by (simp add: versionError_def oldHost_def flip: js_append)
  show ?thesis
    using construct_version_gate [of oldHost noBrokerConfig]
      construct_version_gate [of sampleHost noBrokerConfig] a b
    by (simp add: c)
qed

end
